theory Spec2Isabelle
  imports Main "HOL-Library.AList"
begin

section \<open>Data model\<close>

text \<open>
  The page keeps its state in the global \<open>AppState\<close> (form answers, uploaded files, wizard
  step) and in the \<open>DataStorage\<close> instance (\<open>isSubmitted\<close>). Durable state is the single
  \<open>localStorage\<close> key \<open>insurance-claim-data\<close> and the IndexedDB object store \<open>files\<close>.
  Both are fields of one record that every operation takes and returns. DOM rendering
  (\<open>displayUploadedFiles\<close>, \<open>fillFormData\<close>, \<open>updateStepDisplay\<close>) and console output
  have no effect on this state and are left out; \<open>showMessage\<close> is kept as a log of the
  notifications shown, \<open>link.click()\<close> as a log of the downloads triggered.
\<close>

text \<open>A form answer is a string (\<open>element.value\<close>) or a boolean (\<open>element.checked\<close>).\<close>

datatype fval = FStr string | FBool bool

text \<open>
  An entry of \<open>AppState.uploadedFiles\<close>. \<open>fd_id = None\<close> and \<open>fd_data = None\<close> stand for
  an absent (\<open>undefined\<close>) property: \<open>processFiles\<close> builds entries without \<open>id\<close>, the
  migration and \<open>saveToStorage\<close> build entries without \<open>data\<close>.
\<close>

record file_desc =
  fd_id :: "string option"
  fd_name :: string
  fd_size :: nat
  fd_type :: string
  fd_data :: "string option"

text \<open>A \<open>Blob\<close>: its bytes and its MIME type.\<close>

record blob =
  blob_bytes :: "nat list"
  blob_type :: string

text \<open>
  The JSON document under the \<open>localStorage\<close> key. \<open>JSON.stringify\<close> omits a property whose
  value is \<open>undefined\<close> and \<open>JSON.parse\<close> gives \<open>undefined\<close> for a property that is not
  there, so the stored text is modelled by the document it denotes, with \<open>None\<close> for an
  absent property. \<open>Unparsable\<close> is a stored text that \<open>loadFromStorage\<close> cannot use: the
  empty string (falsy) or a text on which \<open>JSON.parse\<close> or the property reads raise.
\<close>

record snapshot =
  snap_formData :: "(string \<times> fval) list option"
  snap_uploadedFiles :: "file_desc list option"
  snap_timestamp :: "string option"

datatype ls_value = Unparsable | Document snapshot

text \<open>
  One triggered download: the position of the file in the list, the descriptor's name and
  the blob behind the link. The name given to the link (base name, position, sanitised
  file name, extension) is computed after the blob is built, by string operations that
  do not raise; it is not part of the model.
\<close>

record download =
  dl_index :: nat
  dl_name :: string
  dl_blob :: blob

text \<open>
  \<open>formData\<close> is the object's own properties in enumeration order. \<open>quota_exceeded\<close> is the
  environment's answer to \<open>localStorage.setItem\<close> (it raises when true); \<open>clock\<close> is what
  \<open>new Date().toISOString()\<close> returns.
\<close>

record app =
  formData :: "(string \<times> fval) list"
  uploadedFiles :: "file_desc list"
  currentStep :: nat
  isSubmitted :: bool
  localStorage :: "ls_value option"
  quota_exceeded :: bool
  clock :: string
  idb_files :: "string \<rightharpoonup> blob"
  messages :: "(string \<times> string) list"
  downloads :: "download list"

section \<open>DataStorage: saving\<close>

definition showMessage :: "string \<Rightarrow> string \<Rightarrow> app \<Rightarrow> app" where
  "showMessage message type s = s\<lparr>messages := messages s @ [(message, type)]\<rparr>"

text \<open>The object literal that \<open>saveToStorage\<close> maps every file to.\<close>

definition metadata_of :: "file_desc \<Rightarrow> file_desc" where
  "metadata_of file =
     \<lparr>fd_id = fd_id file, fd_name = fd_name file, fd_size = fd_size file,
      fd_type = fd_type file, fd_data = None\<rparr>"

definition dataToSave :: "app \<Rightarrow> snapshot" where
  "dataToSave s =
     \<lparr>snap_formData = Some (formData s),
      snap_uploadedFiles = Some (map metadata_of (uploadedFiles s)),
      snap_timestamp = Some (clock s)\<rparr>"

definition saveToStorage :: "app \<Rightarrow> app" where
  "saveToStorage s =
     (if isSubmitted s then s
      else if quota_exceeded s then
        (if \<not> isSubmitted s
         then showMessage ''Failed to save metadata, please check storage space'' ''error'' s
         else s)
      else s\<lparr>localStorage := Some (Document (dataToSave s))\<rparr>)"

text \<open>The body of the \<open>setInterval\<close> callback installed by \<open>init\<close>.\<close>

definition autoSaveTick :: "app \<Rightarrow> app" where
  "autoSaveTick s = (if \<not> isSubmitted s then saveToStorage s else s)"

text \<open>A sequence of persistence attempts: event-driven saves and timer ticks.\<close>

datatype persist_call = Save | Tick

fun persist :: "persist_call \<Rightarrow> app \<Rightarrow> app" where
  "persist Save s = saveToStorage s"
| "persist Tick s = autoSaveTick s"

fun persist_all :: "persist_call list \<Rightarrow> app \<Rightarrow> app" where
  "persist_all [] s = s"
| "persist_all (c # cs) s = persist_all cs (persist c s)"

section \<open>Decoding inline data\<close>

text \<open>
  \<open>String.prototype.split\<close> with a one-character separator: the pieces between the
  separators, never an empty array.
\<close>

fun split_on :: "char \<Rightarrow> string \<Rightarrow> string list" where
  "split_on c [] = [[]]"
| "split_on c (x # xs) =
     (if x = c then [] # split_on c xs
      else (case split_on c xs of [] \<Rightarrow> [[x]] | p # ps \<Rightarrow> (x # p) # ps))"

text \<open>Reading an array element: \<open>None\<close> is \<open>undefined\<close>.\<close>

definition element_at :: "'a list \<Rightarrow> nat \<Rightarrow> 'a option" where
  "element_at xs i = (if i < length xs then Some (xs ! i) else None)"

text \<open>
  \<open>atob\<close> is the forgiving base64 decoding of the HTML standard: ASCII whitespace is
  dropped, one or two trailing \<open>=\<close> are dropped when the length is a multiple of four, a
  length of one modulo four or a character outside the alphabet raises
  (\<open>None\<close>), and the remaining characters are read six bits at a time.
\<close>

definition is_ascii_whitespace :: "char \<Rightarrow> bool" where
  "is_ascii_whitespace c = ((of_char c :: nat) \<in> {9, 10, 12, 13, 32})"

definition b64_value :: "char \<Rightarrow> nat option" where
  "b64_value c =
     (let n = (of_char c :: nat) in
      if 65 \<le> n \<and> n \<le> 90 then Some (n - 65)
      else if 97 \<le> n \<and> n \<le> 122 then Some (n - 71)
      else if 48 \<le> n \<and> n \<le> 57 then Some (n + 4)
      else if n = 43 then Some 62
      else if n = 47 then Some 63
      else None)"

definition strip_padding :: "string \<Rightarrow> string" where
  "strip_padding d =
     (if length d mod 4 = 0 then
        (if drop (length d - 2) d = ''=='' then take (length d - 2) d
         else if drop (length d - 1) d = ''='' then take (length d - 1) d
         else d)
      else d)"

fun b64_bytes :: "nat list \<Rightarrow> nat list" where
  "b64_bytes (a # b # c # d # rest) =
     (a * 4 + b div 16) # ((b mod 16) * 16 + c div 4) # ((c mod 4) * 64 + d) # b64_bytes rest"
| "b64_bytes [a, b, c] = [a * 4 + b div 16, (b mod 16) * 16 + c div 4]"
| "b64_bytes [a, b] = [a * 4 + b div 16]"
| "b64_bytes _ = []"

definition atob :: "string \<Rightarrow> nat list option" where
  "atob encoded =
     (let d = strip_padding (filter (\<lambda>c. \<not> is_ascii_whitespace c) encoded) in
      if length d mod 4 = 1 then None
      else (case those (map b64_value d) of
              None \<Rightarrow> None
            | Some sextets \<Rightarrow> Some (b64_bytes sextets)))"

text \<open>
  The \<open>Blob\<close> constructor normalises the type it is given: a type with a character
  outside U+0020 to U+007E becomes the empty string, any other type is converted to ASCII
  lower case.
\<close>

definition ascii_lower :: "char \<Rightarrow> char" where
  "ascii_lower c =
     (case map_of (zip ''ABCDEFGHIJKLMNOPQRSTUVWXYZ'' ''abcdefghijklmnopqrstuvwxyz'') c of
        None \<Rightarrow> c
      | Some l \<Rightarrow> l)"

definition new_Blob :: "nat list \<Rightarrow> string \<Rightarrow> blob" where
  "new_Blob bytes type =
     \<lparr>blob_bytes = bytes,
      blob_type = (if list_ex (\<lambda>c. (of_char c :: nat) < 32 \<or> 126 < (of_char c :: nat)) type
                   then [] else map ascii_lower type)\<rparr>"

section \<open>DataStorage: loading and the legacy migration\<close>

text \<open>
  \<open>IDBHelper.putFile\<close>: the transaction either completes, and the record replaces any
  record under the same key, or it fails and the promise is rejected. Whether it fails
  is the environment's choice (\<open>ok\<close>). These are the two events the promise listens
  for (\<open>oncomplete\<close>, \<open>onerror\<close>); a transaction that ends with neither would leave the
  promise pending and the loop suspended at that entry, and is not among the runs
  described here.
\<close>

definition IDBHelper_putFile ::
  "bool \<Rightarrow> string \<Rightarrow> blob \<Rightarrow> (string \<rightharpoonup> blob) \<Rightarrow> (string \<rightharpoonup> blob) option" where
  "IDBHelper_putFile ok ident file db = (if ok then Some (db(ident \<mapsto> file)) else None)"

text \<open>
  What one run of the migration takes from its environment, for the entry at position
  \<open>i\<close>: the identifier built from \<open>Date.now()\<close> and \<open>Math.random()\<close>, and whether the
  IndexedDB transaction completes.
\<close>

record migration_env =
  fresh_id :: "nat \<Rightarrow> string"
  put_ok :: "nat \<Rightarrow> bool"

text \<open>The test \<open>f && f.data\<close>: the property is there and is not the empty string.\<close>

definition has_data :: "file_desc \<Rightarrow> bool" where
  "has_data f = (case fd_data f of None \<Rightarrow> False | Some d \<Rightarrow> d \<noteq> [])"

text \<open>
  The conversion of the inline data URL to a blob; \<open>None\<close> when a step raises, which the
  outer \<open>try\<close> of the loop body catches.
\<close>

definition legacy_blob :: "file_desc \<Rightarrow> blob option" where
  "legacy_blob f =
     (case fd_data f of
        None \<Rightarrow> None
      | Some d \<Rightarrow>
          (let parts = split_on CHR '','' d;
               base64 = (case element_at parts 1 of None \<Rightarrow> [] | Some p \<Rightarrow> p)
           in case atob base64 of
                None \<Rightarrow> None
              | Some byteCharacters \<Rightarrow>
                  Some (new_Blob byteCharacters
                          (if fd_type f = [] then ''application/octet-stream''
                           else fd_type f))))"

text \<open>
  The \<open>for\<close> loop of \<open>migrateLegacy\<close>, run to its end: \<open>i\<close> is the loop index, \<open>fs\<close> the
  array \<open>AppState.uploadedFiles\<close>, \<open>db\<close> the object store, \<open>migrated\<close> the flag. Both
  \<open>catch\<close> blocks only log, so a failing entry goes on to the next index.
\<close>

function migrate_loop ::
  "migration_env \<Rightarrow> nat \<Rightarrow> file_desc list \<Rightarrow> (string \<rightharpoonup> blob) \<Rightarrow> bool
     \<Rightarrow> file_desc list \<times> (string \<rightharpoonup> blob) \<times> bool" where
  "migrate_loop env i fs db migrated =
     (if i < length fs then
        (let f = fs ! i in
         if has_data f then
           (case legacy_blob f of
              None \<Rightarrow> migrate_loop env (i + 1) fs db migrated
            | Some blob \<Rightarrow>
                (case IDBHelper_putFile (put_ok env i) (fresh_id env i) blob db of
                   None \<Rightarrow> migrate_loop env (i + 1) fs db migrated
                 | Some db' \<Rightarrow>
                     migrate_loop env (i + 1)
                       (fs[i := \<lparr>fd_id = Some (fresh_id env i), fd_name = fd_name f,
                                 fd_size = fd_size f, fd_type = fd_type f, fd_data = None\<rparr>])
                       db' True))
         else migrate_loop env (i + 1) fs db migrated)
      else (fs, db, migrated))"
  by pat_completeness auto
termination
  by (relation "measure (\<lambda>(env, i, fs, db, migrated). length fs - i)") auto

declare migrate_loop.simps [simp del]

definition migrateLegacy :: "migration_env \<Rightarrow> app \<Rightarrow> app" where
  "migrateLegacy env s =
     (case migrate_loop env 0 (uploadedFiles s) (idb_files s) False of
        (fs, db, migrated) \<Rightarrow>
          (let s' = s\<lparr>uploadedFiles := fs, idb_files := db\<rparr>
           in if migrated then saveToStorage s' else s'))"

text \<open>
  \<open>loadFromStorage\<close>, with the migration it starts run to its end before any other
  event handler touches the state. Nothing changes when the key is absent or its text
  cannot be used.
\<close>

definition loadFromStorage :: "migration_env \<Rightarrow> app \<Rightarrow> app" where
  "loadFromStorage env s =
     (case localStorage s of
        Some (Document parsedData) \<Rightarrow>
          migrateLegacy env
            (s\<lparr>formData := (case snap_formData parsedData of None \<Rightarrow> [] | Some fd \<Rightarrow> fd),
               uploadedFiles :=
                 (case snap_uploadedFiles parsedData of None \<Rightarrow> [] | Some fs \<Rightarrow> fs)\<rparr>)
      | _ \<Rightarrow> s)"

section \<open>DataStorage: removing a file, the claim data, the signature\<close>

text \<open>
  \<open>Array.prototype.splice(start, deleteCount)\<close> without inserted items: a negative
  \<open>start\<close> counts from the end and is clamped at 0, a \<open>start\<close> beyond the end is clamped
  at the length, and the count is clamped to what is left.
\<close>

definition splice :: "int \<Rightarrow> int \<Rightarrow> 'a list \<Rightarrow> 'a list" where
  "splice start deleteCount xs =
     (let len = int (length xs);
          actualStart = (if start < 0 then max (len + start) 0 else min start len);
          actualDeleteCount = min (max deleteCount 0) (len - actualStart)
      in take (nat actualStart) xs @ drop (nat (actualStart + actualDeleteCount)) xs)"

definition removeFile :: "int \<Rightarrow> app \<Rightarrow> app" where
  "removeFile index s =
     showMessage ''File deleted'' ''info''
       (saveToStorage (s\<lparr>uploadedFiles := splice index 1 (uploadedFiles s)\<rparr>))"

record claim_data =
  cd_formData :: "(string \<times> fval) list"
  cd_uploadedFiles :: "file_desc list"
  cd_timestamp :: string

definition getClaimData :: "app \<Rightarrow> claim_data" where
  "getClaimData s =
     \<lparr>cd_formData = formData s, cd_uploadedFiles = uploadedFiles s, cd_timestamp = clock s\<rparr>"

text \<open>
  A message on a port or to a client: its \<open>type\<close> and its \<open>data\<close>. The page's listener
  receives \<open>event.data\<close> (\<open>None\<close> when it is null) and the transferred ports, and posts at
  most one message, on the first port.
\<close>

record 'd port_message =
  pm_type :: string
  pm_data :: 'd

record message_event =
  ev_data :: "unit port_message option"
  ev_ports :: "nat list"

definition serviceWorker_onmessage ::
  "app \<Rightarrow> message_event \<Rightarrow> (nat \<times> claim_data port_message) option" where
  "serviceWorker_onmessage s event =
     (case ev_data event of
        None \<Rightarrow> None
      | Some d \<Rightarrow>
          if pm_type d = ''REQUEST_CLAIM_DATA'' then
            (case element_at (ev_ports event) 0 of
               None \<Rightarrow> None
             | Some channel \<Rightarrow>
                 Some (channel, \<lparr>pm_type = ''CLAIM_DATA_RESPONSE'', pm_data = getClaimData s\<rparr>))
          else None)"

text \<open>
  \<open>confirmSignature\<close>: the canvas element, when the page has one, is given by what its
  \<open>toDataURL('image/png')\<close> returns.
\<close>

definition confirmSignature :: "string option \<Rightarrow> app \<Rightarrow> app" where
  "confirmSignature canvas s =
     (case canvas of
        None \<Rightarrow> s
      | Some dataUrl \<Rightarrow>
          (let s1 = saveToStorage
                      (s\<lparr>formData := AList.update ''claimSignature'' (FStr dataUrl) (formData s)\<rparr>);
               s2 = s1\<lparr>currentStep := currentStep s1 + 1\<rparr>
           in showMessage ''Proceeding to next step'' ''success'' s2))"

section \<open>FileHandler\<close>

text \<open>
  A \<open>File\<close> handed to \<open>processFiles\<close>. \<open>rf_read\<close> is what \<open>readFileAsBase64\<close> resolves to
  for it (the data URL), or \<open>None\<close> when the reader fails.
\<close>

record raw_file =
  rf_name :: string
  rf_size :: nat
  rf_type :: string
  rf_read :: "string option"

definition maxFileSize :: nat where
  "maxFileSize = 10 * 1024 * 1024"

definition allowedTypes :: "string list" where
  "allowedTypes = [''image/jpeg'', ''image/png'', ''image/gif'', ''application/pdf'']"

definition validateFile :: "raw_file \<Rightarrow> app \<Rightarrow> bool \<times> app" where
  "validateFile file s =
     (if rf_type file \<notin> set allowedTypes then
        (False, showMessage (''Unsupported file type: '' @ rf_name file) ''error'' s)
      else if rf_size file > maxFileSize then
        (False, showMessage (''File too large: '' @ rf_name file @ '' (max 10MB)'') ''error'' s)
      else (True, s))"

fun processFiles :: "raw_file list \<Rightarrow> app \<Rightarrow> app" where
  "processFiles [] s = s"
| "processFiles (file # files) s =
     (case validateFile file s of
        (False, s1) \<Rightarrow> processFiles files s1
      | (True, s1) \<Rightarrow>
          (case rf_read file of
             None \<Rightarrow>
               processFiles files
                 (showMessage (''File '' @ rf_name file @ '' processing failed'') ''error'' s1)
           | Some fileData \<Rightarrow>
               (let fileInfo = \<lparr>fd_id = None, fd_name = rf_name file, fd_size = rf_size file,
                                 fd_type = rf_type file, fd_data = Some fileData\<rparr>;
                    s2 = saveToStorage (s1\<lparr>uploadedFiles := uploadedFiles s1 @ [fileInfo]\<rparr>)
                in processFiles files
                     (showMessage (''File '' @ rf_name file @ '' uploaded successfully'')
                        ''success'' s2))))"

section \<open>DataStorage: exporting the uploaded files\<close>

text \<open>
  The body of one timer callback of \<open>exportUploadedFiles\<close>. Reading \<open>split\<close> of an absent
  \<open>data\<close> raises; \<open>atob\<close> of an absent second piece decodes the text \<open>undefined\<close>; the
  \<open>catch\<close> block shows the error notification.
\<close>

definition export_file :: "nat \<Rightarrow> file_desc \<Rightarrow> app \<Rightarrow> app" where
  "export_file index file s =
     (let failed = showMessage (''Failed to export file: '' @ fd_name file) ''error'' s in
      case fd_data file of
        None \<Rightarrow> failed
      | Some d \<Rightarrow>
          (let base64Data = (case element_at (split_on CHR '','' d) 1 of
                               None \<Rightarrow> ''undefined'' | Some p \<Rightarrow> p)
           in case atob base64Data of
                None \<Rightarrow> failed
              | Some byteCharacters \<Rightarrow>
                  s\<lparr>downloads := downloads s @
                       [\<lparr>dl_index = index, dl_name = fd_name file,
                         dl_blob = new_Blob byteCharacters (fd_type file)\<rparr>]\<rparr>))"

text \<open>
  \<open>forEach\<close> hands every file and its index to a timer whose delay grows with the index,
  so the callbacks run in list order, each on the file it was created with.
\<close>

fun export_each :: "nat \<Rightarrow> file_desc list \<Rightarrow> app \<Rightarrow> app" where
  "export_each index [] s = s"
| "export_each index (file # files) s = export_each (index + 1) files (export_file index file s)"

definition exportUploadedFiles :: "app \<Rightarrow> app" where
  "exportUploadedFiles s =
     (if length (uploadedFiles s) = 0 then s else export_each 0 (uploadedFiles s) s)"

section \<open>The service worker\<close>

text \<open>
  \<open>clients.matchAll\<close> resolves to the list of clients or is rejected with a reason. The
  first client's behaviour after the request is posted is either silence or one message
  on the reply port, arriving so many milliseconds later; a message counts only when it
  arrives before the 1500 ms timer fires.
\<close>

datatype 'c clients_result = MatchAllFails string | Clients "'c list"

datatype 'd page_answer = NoAnswer | Answer nat "'d port_message option"

datatype 'd body = ErrorBody string | DataBody 'd

record 'd response =
  status :: nat
  content_type :: string
  body :: "'d body"

definition error_response :: "string \<Rightarrow> 'd response" where
  "error_response e = \<lparr>status = 500, content_type = ''application/json'', body = ErrorBody e\<rparr>"

definition responsePromise :: "'d page_answer \<Rightarrow> string + 'd response" where
  "responsePromise answer =
     (case answer of
        NoAnswer \<Rightarrow> Inl ''timeout''
      | Answer t d \<Rightarrow>
          if t < 1500 then
            (case d of
               None \<Rightarrow> Inl ''no-data''
             | Some m \<Rightarrow>
                 if pm_type m = ''CLAIM_DATA_RESPONSE''
                 then Inr \<lparr>status = 200, content_type = ''application/json'',
                           body = DataBody (pm_data m)\<rparr>
                 else Inl ''no-data'')
          else Inl ''timeout'')"

text \<open>The \<open>fetch\<close> listener: \<open>None\<close> when it does not call \<open>respondWith\<close>.\<close>

definition fetch_handler ::
  "string \<Rightarrow> 'c clients_result \<Rightarrow> ('c \<Rightarrow> 'd page_answer) \<Rightarrow> 'd response option" where
  "fetch_handler pathname matched behaviour =
     (if pathname = ''/claim-data'' then
        Some (case matched of
                MatchAllFails e \<Rightarrow> error_response e
              | Clients allClients \<Rightarrow>
                  if length allClients > 0 then
                    (case responsePromise (behaviour (allClients ! 0)) of
                       Inl e \<Rightarrow> error_response e
                     | Inr r \<Rightarrow> r)
                  else error_response ''no-client'')
      else None)"

section \<open>Notions used to state the properties\<close>

text \<open>
  An entry that the migration can convert under an environment: it carries inline data,
  the data decodes, and the write to IndexedDB completes. \<open>reference_form\<close> is the entry
  the loop body puts in its place.
\<close>

definition entry_ok :: "migration_env \<Rightarrow> nat \<Rightarrow> file_desc \<Rightarrow> bool" where
  "entry_ok env i f = (has_data f \<and> legacy_blob f \<noteq> None \<and> put_ok env i)"

definition reference_form :: "string \<Rightarrow> file_desc \<Rightarrow> file_desc" where
  "reference_form ident f =
     \<lparr>fd_id = Some ident, fd_name = fd_name f, fd_size = fd_size f,
      fd_type = fd_type f, fd_data = None\<rparr>"


text \<open>
  The specification's words for binary content: a descriptor list is metadata only when
  no entry carries the inline \<open>data\<close> property, and a text is inline base64 content when
  it is a data URL, \<open>data:\<close>\<dots>\<open>;base64,\<close>\<dots>
\<close>

definition descriptors_only :: "file_desc list \<Rightarrow> bool" where
  "descriptors_only fs = list_all (\<lambda>f. fd_data f = None) fs"

definition inline_base64 :: "string \<Rightarrow> bool" where
  "inline_base64 x =
     (let parts = split_on CHR '','' x; scheme = parts ! 0 in
      1 < length parts \<and> take 5 scheme = ''data:'' \<and>
      drop (length scheme - 7) scheme = '';base64'')"

fun binary_answer :: "string \<times> fval \<Rightarrow> bool" where
  "binary_answer (k, FStr x) = inline_base64 x"
| "binary_answer (k, FBool b) = False"

definition snapshot_has_binary :: "snapshot \<Rightarrow> bool" where
  "snapshot_has_binary d =
     ((case snap_uploadedFiles d of None \<Rightarrow> False | Some fs \<Rightarrow> \<not> descriptors_only fs) \<or>
      (case snap_formData d of None \<Rightarrow> False | Some fd \<Rightarrow> list_ex binary_answer fd))"

text \<open>The download that the callback for one file triggers, if it triggers one.\<close>

definition export_download :: "nat \<Rightarrow> file_desc \<Rightarrow> download option" where
  "export_download index file =
     (case fd_data file of
        None \<Rightarrow> None
      | Some d \<Rightarrow>
          (case atob (case element_at (split_on CHR '','' d) 1 of
                        None \<Rightarrow> ''undefined'' | Some p \<Rightarrow> p) of
             None \<Rightarrow> None
           | Some bytes \<Rightarrow>
               Some \<lparr>dl_index = index, dl_name = fd_name file,
                     dl_blob = new_Blob bytes (fd_type file)\<rparr>))"

text \<open>
  A state with its notifications cleared: two states with the same image differ at most
  in the notifications shown.
\<close>

definition unnoticed :: "app \<Rightarrow> app" where
  "unnoticed s = s\<lparr>messages := []\<rparr>"

text \<open>The notification that \<open>validateFile\<close> shows for a file it rejects.\<close>

definition rejection_note :: "raw_file \<Rightarrow> string" where
  "rejection_note file =
     (if rf_type file \<notin> set allowedTypes then ''Unsupported file type: '' @ rf_name file
      else ''File too large: '' @ rf_name file @ '' (max 10MB)'')"

section \<open>Sample states and inputs\<close>

text \<open>A page just opened in a profile with nothing stored.\<close>

definition fresh_page :: app where
  "fresh_page =
     \<lparr>formData = [], uploadedFiles = [], currentStep = 1, isSubmitted = False,
      localStorage = None, quota_exceeded = False, clock = ''2024-01-01T00:00:00.000Z'',
      idb_files = Map.empty, messages = [], downloads = []\<rparr>"

definition pdf_upload :: raw_file where
  "pdf_upload =
     \<lparr>rf_name = ''report.pdf'', rf_size = 4, rf_type = ''application/pdf'',
      rf_read = Some ''data:application/pdf;base64,JVBERg==''\<rparr>"

definition text_upload :: raw_file where
  "text_upload =
     \<lparr>rf_name = ''notes.txt'', rf_size = 5, rf_type = ''text/plain'',
      rf_read = Some ''data:text/plain;base64,aGVsbG8=''\<rparr>"

definition legacy_pdf :: file_desc where
  "legacy_pdf =
     \<lparr>fd_id = None, fd_name = ''report.pdf'', fd_size = 4, fd_type = ''application/pdf'',
      fd_data = Some ''data:application/pdf;base64,JVBERg==''\<rparr>"


definition stored_pdf :: file_desc where
  "stored_pdf =
     \<lparr>fd_id = Some ''file-1704067200000-k3j9x2a'', fd_name = ''report.pdf'', fd_size = 4,
      fd_type = ''application/pdf'', fd_data = None\<rparr>"

definition stored_png :: file_desc where
  "stored_png =
     \<lparr>fd_id = Some ''file-1704067200001-q8w1e5r'', fd_name = ''scan.png'', fd_size = 3,
      fd_type = ''image/png'', fd_data = None\<rparr>"





text \<open>Two environments for a run of the migration: every write completes, every write fails.\<close>

definition env_ok :: migration_env where
  "env_ok = \<lparr>fresh_id = (\<lambda>i. ''file-1704067200000-'' @ replicate (Suc i) CHR ''a''),
             put_ok = (\<lambda>i. True)\<rparr>"

definition env_down :: migration_env where
  "env_down = \<lparr>fresh_id = (\<lambda>i. ''file-1704067100000-'' @ replicate (Suc i) CHR ''b''),
               put_ok = (\<lambda>i. False)\<rparr>"

definition request_event :: message_event where
  "request_event =
     \<lparr>ev_data = Some \<lparr>pm_type = ''REQUEST_CLAIM_DATA'', pm_data = ()\<rparr>, ev_ports = [0]\<rparr>"

definition signature_url :: string where
  "signature_url = ''data:image/png;base64,iVBORw0KGgo=''"

text \<open>A session with two uploaded files, both in reference form.\<close>

definition two_files :: app where
  "two_files = fresh_page\<lparr>uploadedFiles := [stored_pdf, stored_png]\<rparr>"

text \<open>
  Three pages as the service worker sees them: one that never answers, one whose
  well-formed answer arrives when the timer has fired, one that answers at once with a
  message of another type.
\<close>

definition silent_page :: "nat \<Rightarrow> claim_data page_answer" where
  "silent_page c = NoAnswer"

definition late_page :: "nat \<Rightarrow> claim_data page_answer" where
  "late_page c = Answer 1500 (Some \<lparr>pm_type = ''CLAIM_DATA_RESPONSE'', pm_data = getClaimData fresh_page\<rparr>)"

definition odd_page :: "nat \<Rightarrow> claim_data page_answer" where
  "odd_page c = Answer 20 (Some \<lparr>pm_type = ''PONG'', pm_data = getClaimData fresh_page\<rparr>)"

text \<open>The session after one PDF went through \<open>processFiles\<close> on a fresh page.\<close>

definition uploaded_session :: app where
  "uploaded_session = processFiles [pdf_upload] fresh_page"

text \<open>What \<open>localStorage\<close> holds after \<open>confirmSignature\<close> on a fresh page.\<close>

definition signed_snapshot :: snapshot where
  "signed_snapshot =
     \<lparr>snap_formData = Some [(''claimSignature'', FStr signature_url)],
      snap_uploadedFiles = Some [],
      snap_timestamp = Some ''2024-01-01T00:00:00.000Z''\<rparr>"

text \<open>
  A draft before and after its first save, and the saved draft edited once more in memory,
  after submission in one case and with the storage quota used up in the other.
\<close>

definition draft_input :: app where
  "draft_input =
     fresh_page\<lparr>formData := [(''insured-name'', FStr ''Jane'')], uploadedFiles := [stored_pdf]\<rparr>"

definition draft_session :: app where
  "draft_session = saveToStorage draft_input"

definition edited_after_submit :: app where
  "edited_after_submit =
     draft_session\<lparr>isSubmitted := True, formData := [(''insured-name'', FStr ''Jane Doe'')]\<rparr>"

definition edited_over_quota :: app where
  "edited_over_quota =
     draft_session\<lparr>quota_exceeded := True, formData := [(''insured-name'', FStr ''Jane Doe'')]\<rparr>"

text \<open>A session holding one descriptor in reference form and one with inline data.\<close>

definition mixed_session :: app where
  "mixed_session = fresh_page\<lparr>uploadedFiles := [stored_png, legacy_pdf]\<rparr>"

section \<open>Persistence after submission\<close>

lemma persist_submitted: "isSubmitted s \<Longrightarrow> persist c s = s"
  by (cases c) (simp_all add: saveToStorage_def autoSaveTick_def)

text \<open>
  C1. Once \<open>isSubmitted\<close> is true, a call of \<open>saveToStorage\<close> and a tick of the auto-save
  timer both return the state as it was, and so does any sequence of them: the
  \<open>localStorage\<close> snapshot is never written again.
\<close>

theorem submitted_never_writes:
  "isSubmitted s \<Longrightarrow>
     saveToStorage s = s \<and> autoSaveTick s = s \<and>
     persist_all cs s = s \<and> localStorage (persist_all cs s) = localStorage s"
proof -
  assume sub: "isSubmitted s"
  have all: "persist_all cs s = s"
    using sub by (induction cs) (simp_all add: persist_submitted)
  show ?thesis
    using sub all by (simp add: saveToStorage_def autoSaveTick_def)
qed

theorem submitted_never_writes_witness:
  "isSubmitted (fresh_page\<lparr>isSubmitted := True\<rparr>) \<and>
   persist_all [Save, Tick, Save] (fresh_page\<lparr>isSubmitted := True\<rparr>) =
     fresh_page\<lparr>isSubmitted := True\<rparr> \<and>
   localStorage (persist_all [Save, Tick, Save] (fresh_page\<lparr>isSubmitted := True\<rparr>)) = None"
proof -
  have sub: "isSubmitted (fresh_page\<lparr>isSubmitted := True\<rparr>)" by simp
  note run = submitted_never_writes [of "fresh_page\<lparr>isSubmitted := True\<rparr>" "[Save, Tick, Save]", OF sub]
  have "localStorage (fresh_page\<lparr>isSubmitted := True\<rparr>) = None"
    by (simp add: fresh_page_def)
  then show ?thesis using sub run by simp
qed

section \<open>The legacy migration\<close>

subsection \<open>The loop, entry by entry\<close>

lemma migrate_loop_step:
  "i < length fs \<Longrightarrow>
   migrate_loop env i fs db m =
     (if entry_ok env i (fs ! i)
      then migrate_loop env (i + 1) (fs[i := reference_form (fresh_id env i) (fs ! i)])
             (db(fresh_id env i \<mapsto> the (legacy_blob (fs ! i)))) True
      else migrate_loop env (i + 1) fs db m)"
  by (subst migrate_loop.simps)
     (auto simp: entry_ok_def reference_form_def IDBHelper_putFile_def Let_def
           split: option.splits)

lemma migrate_loop_done: "\<not> i < length fs \<Longrightarrow> migrate_loop env i fs db m = (fs, db, m)"
  by (subst migrate_loop.simps) simp



lemma migrate_loop_noop:
  "(\<forall>j. i \<le> j \<and> j < length fs \<longrightarrow> \<not> entry_ok env j (fs ! j)) \<Longrightarrow>
   migrate_loop env i fs db m = (fs, db, m)"
proof (induction "length fs - i" arbitrary: i)
  case 0
  then show ?case by (simp add: migrate_loop_done)
next
  case (Suc n)
  then have lt: "i < length fs" by simp
  from Suc have n: "n = length fs - (i + 1)" by simp
  have no: "\<not> entry_ok env i (fs ! i)" using Suc.prems lt by simp
  have rest: "\<forall>j. i + 1 \<le> j \<and> j < length fs \<longrightarrow> \<not> entry_ok env j (fs ! j)"
    using Suc.prems by simp
  from Suc.hyps(1)[OF n rest] show ?case
    using lt no by (simp add: migrate_loop_step)
qed






lemma metadata_of_reference: "fd_data f = None \<Longrightarrow> metadata_of f = f"
  by (simp add: metadata_of_def)

lemma saveToStorage_keeps:
  "uploadedFiles (saveToStorage s) = uploadedFiles s"
  "idb_files (saveToStorage s) = idb_files s"
  "formData (saveToStorage s) = formData s"
  "isSubmitted (saveToStorage s) = isSubmitted s"
  by (simp_all add: saveToStorage_def showMessage_def)



lemma migrateLegacy_noop:
  "(\<forall>j < length (uploadedFiles s). \<not> entry_ok env j (uploadedFiles s ! j)) \<Longrightarrow>
   migrateLegacy env s = s"
  by (simp add: migrateLegacy_def migrate_loop_noop)

lemma atob_samples:
  "atob ''JVBERg=='' = Some [37, 80, 68, 70]"
  "atob ''!!!'' = None"
  "atob ''undefined'' = None"
  by (simp_all add: atob_def strip_padding_def is_ascii_whitespace_def b64_value_def)

lemma blob_samples:
  "new_Blob bytes ''application/pdf'' = \<lparr>blob_bytes = bytes, blob_type = ''application/pdf''\<rparr>"
  "new_Blob bytes ''Image/PNG'' = \<lparr>blob_bytes = bytes, blob_type = ''image/png''\<rparr>"
  by (simp_all add: new_Blob_def ascii_lower_def)








lemma load_stripped:
  "localStorage s = Some (Document \<lparr>snap_formData = Some fd,
       snap_uploadedFiles = Some (map metadata_of fs), snap_timestamp = ts\<rparr>) \<Longrightarrow>
   loadFromStorage env s = s\<lparr>formData := fd, uploadedFiles := map metadata_of fs\<rparr>"
  by (simp add: loadFromStorage_def migrateLegacy_noop entry_ok_def has_data_def metadata_of_def)

subsection \<open>Failures stay with their entry\<close>




subsection \<open>Running the migration again\<close>










section \<open>Removing a file\<close>

lemma removeFile_files:
  "uploadedFiles (removeFile index s) = splice index 1 (uploadedFiles s)"
  by (simp add: removeFile_def showMessage_def saveToStorage_keeps)

text \<open>
  C6, as the code has it. \<open>removeFile\<close> with an index inside the list removes exactly the
  descriptor at that position and shortens the list by one; with an index at or beyond
  the length it leaves the list as it is; with a negative index it removes the descriptor
  that \<open>splice\<close> counts from the end, position \<open>length + index\<close>, or the first one when
  that is negative too.
\<close>

theorem removeFile_splice:
  "(0 \<le> index \<and> index < int (length (uploadedFiles s)) \<longrightarrow>
      uploadedFiles (removeFile index s) =
        take (nat index) (uploadedFiles s) @ drop (nat index + 1) (uploadedFiles s) \<and>
      length (uploadedFiles (removeFile index s)) = length (uploadedFiles s) - 1) \<and>
   (int (length (uploadedFiles s)) \<le> index \<longrightarrow>
      uploadedFiles (removeFile index s) = uploadedFiles s) \<and>
   (index < 0 \<longrightarrow>
      uploadedFiles (removeFile index s) =
        take (nat (int (length (uploadedFiles s)) + index)) (uploadedFiles s) @
        drop (nat (int (length (uploadedFiles s)) + index) + 1) (uploadedFiles s))"
  by (auto simp: removeFile_files splice_def Let_def max_def min_def nat_add_distrib)

theorem removeFile_splice_witness:
  "uploadedFiles (removeFile 0 two_files) = [stored_png] \<and>
   length (uploadedFiles (removeFile 0 two_files)) = 1 \<and>
   uploadedFiles (removeFile 2 two_files) = [stored_pdf, stored_png] \<and>
   uploadedFiles (removeFile (- 2) two_files) = [stored_png] \<and>
   uploadedFiles (removeFile (- 5) two_files) = [stored_png]"
proof -
  have files: "uploadedFiles two_files = [stored_pdf, stored_png]"
    by (simp add: two_files_def)
  have "uploadedFiles (removeFile 0 two_files) = [stored_png] \<and>
        length (uploadedFiles (removeFile 0 two_files)) = 1"
    using removeFile_splice [of 0 two_files] by (simp add: files)
  moreover have "uploadedFiles (removeFile 2 two_files) = [stored_pdf, stored_png]"
    using removeFile_splice [of 2 two_files] by (simp add: files)
  moreover have "uploadedFiles (removeFile (- 2) two_files) = [stored_png]"
    using removeFile_splice [of "- 2" two_files] by (simp add: files)
  moreover have "uploadedFiles (removeFile (- 5) two_files) = [stored_png]"
    using removeFile_splice [of "- 5" two_files] by (simp add: files)
  ultimately show ?thesis by simp
qed

text \<open>
  A negative index is not a no-op: \<open>removeFile(-1)\<close> on a list of two removes the last
  descriptor.
\<close>

theorem removeFile_negative_counterexample:
  "uploadedFiles (removeFile (- 1) two_files) = [stored_pdf] \<and>
   uploadedFiles (removeFile (- 1) two_files) \<noteq> uploadedFiles two_files"
  by (simp add: removeFile_files two_files_def splice_def)

section \<open>The service worker's answer to a claim-data fetch\<close>

lemma fetch_first_client:
  "fetch_handler ''/claim-data'' (Clients (c # cs)) behaviour =
     Some (case responsePromise (behaviour c) of Inl e \<Rightarrow> error_response e | Inr r \<Rightarrow> r)"
  by (simp add: fetch_handler_def)

lemma fetch_no_client:
  "fetch_handler ''/claim-data'' (Clients []) behaviour = Some (error_response ''no-client'')"
  by (simp add: fetch_handler_def)

lemma responsePromise_cases:
  "responsePromise a = Inl ''timeout'' \<and> (a = NoAnswer \<or> (\<exists>t d. a = Answer t d \<and> 1500 \<le> t)) \<or>
   responsePromise a = Inl ''no-data'' \<and>
     (\<exists>t. t < 1500 \<and> (a = Answer t None \<or>
        (\<exists>m. a = Answer t (Some m) \<and> pm_type m \<noteq> ''CLAIM_DATA_RESPONSE''))) \<or>
   (\<exists>t m. a = Answer t (Some m) \<and> t < 1500 \<and> pm_type m = ''CLAIM_DATA_RESPONSE'' \<and>
      responsePromise a =
        Inr \<lparr>status = 200, content_type = ''application/json'', body = DataBody (pm_data m)\<rparr>)"
  by (auto simp: responsePromise_def split: page_answer.splits option.splits)

lemma fetch_always_responds:
  "\<exists>r. fetch_handler ''/claim-data'' matched behaviour = Some r \<and>
        (status r = 500 \<and> (\<exists>e. body r = ErrorBody e) \<or>
         status r = 200 \<and>
           (\<exists>c cs t m. matched = Clients (c # cs) \<and> behaviour c = Answer t (Some m) \<and>
              t < 1500 \<and> pm_type m = ''CLAIM_DATA_RESPONSE'' \<and> body r = DataBody (pm_data m)))"
proof (cases matched)
  case (MatchAllFails e)
  then show ?thesis by (simp add: fetch_handler_def error_response_def)
next
  case (Clients allClients)
  show ?thesis
  proof (cases allClients)
    case Nil
    with Clients show ?thesis by (simp add: fetch_no_client error_response_def)
  next
    case (Cons c cs)
    from responsePromise_cases [of "behaviour c"] show ?thesis
      unfolding Clients Cons fetch_first_client
      by (elim disjE exE conjE) (simp_all add: error_response_def)
  qed
qed

text \<open>
  C9. A fetch of \<open>/claim-data\<close> with no connected client is answered with status 500 and
  the body \<open>{error: no-client}\<close>. With a client that stays silent, or whose message comes
  when the 1500 ms timer has fired, the answer is status 500 with \<open>{error: timeout}\<close>; with
  a message that is null or not of type \<open>CLAIM_DATA_RESPONSE\<close> it is status 500 with
  \<open>{error: no-data}\<close>. In every case the handler produces a response: status 500 with an
  error body, or status 200 with the data of a well-formed answer that came in time.
\<close>

theorem bridge_failures:
  "fetch_handler ''/claim-data'' (Clients []) behaviour =
     Some \<lparr>status = 500, content_type = ''application/json'', body = ErrorBody ''no-client''\<rparr> \<and>
   (behaviour c = NoAnswer \<or> (\<exists>t d. behaviour c = Answer t d \<and> 1500 \<le> t) \<longrightarrow>
      fetch_handler ''/claim-data'' (Clients (c # cs)) behaviour =
        Some \<lparr>status = 500, content_type = ''application/json'', body = ErrorBody ''timeout''\<rparr>) \<and>
   ((\<exists>t. t < 1500 \<and> (behaviour c = Answer t None \<or>
        (\<exists>m. behaviour c = Answer t (Some m) \<and> pm_type m \<noteq> ''CLAIM_DATA_RESPONSE''))) \<longrightarrow>
      fetch_handler ''/claim-data'' (Clients (c # cs)) behaviour =
        Some \<lparr>status = 500, content_type = ''application/json'', body = ErrorBody ''no-data''\<rparr>) \<and>
   (\<exists>r. fetch_handler ''/claim-data'' matched behaviour = Some r \<and>
        (status r = 500 \<and> (\<exists>e. body r = ErrorBody e) \<or>
         status r = 200 \<and>
           (\<exists>c cs t m. matched = Clients (c # cs) \<and> behaviour c = Answer t (Some m) \<and>
              t < 1500 \<and> pm_type m = ''CLAIM_DATA_RESPONSE'' \<and> body r = DataBody (pm_data m))))"
proof -
  have "behaviour c = NoAnswer \<or> (\<exists>t d. behaviour c = Answer t d \<and> 1500 \<le> t) \<Longrightarrow>
        responsePromise (behaviour c) = Inl ''timeout''"
    by (auto simp: responsePromise_def)
  moreover have "\<exists>t. t < 1500 \<and> (behaviour c = Answer t None \<or>
        (\<exists>m. behaviour c = Answer t (Some m) \<and> pm_type m \<noteq> ''CLAIM_DATA_RESPONSE'')) \<Longrightarrow>
        responsePromise (behaviour c) = Inl ''no-data''"
    by (auto simp: responsePromise_def)
  ultimately show ?thesis
    using fetch_always_responds [of matched behaviour]
    by (simp add: fetch_first_client fetch_no_client error_response_def)
qed

theorem bridge_failures_witness:
  "silent_page 7 = NoAnswer \<and>
   fetch_handler ''/claim-data'' (Clients [7]) silent_page =
     Some \<lparr>status = 500, content_type = ''application/json'', body = ErrorBody ''timeout''\<rparr> \<and>
   fetch_handler ''/claim-data'' (Clients [7]) late_page =
     Some \<lparr>status = 500, content_type = ''application/json'', body = ErrorBody ''timeout''\<rparr> \<and>
   fetch_handler ''/claim-data'' (Clients [7]) odd_page =
     Some \<lparr>status = 500, content_type = ''application/json'', body = ErrorBody ''no-data''\<rparr> \<and>
   fetch_handler ''/claim-data'' (Clients ([] :: nat list)) odd_page =
     Some \<lparr>status = 500, content_type = ''application/json'', body = ErrorBody ''no-client''\<rparr>"
proof -
  have silent: "silent_page 7 = NoAnswer"
    by (simp add: silent_page_def)
  have late: "\<exists>t d. late_page 7 = Answer t d \<and> 1500 \<le> t"
    by (simp add: late_page_def)
  have odd: "\<exists>t. t < 1500 \<and> (odd_page 7 = Answer t None \<or>
        (\<exists>m. odd_page 7 = Answer t (Some m) \<and> pm_type m \<noteq> ''CLAIM_DATA_RESPONSE''))"
    by (simp add: odd_page_def)
  have "fetch_handler ''/claim-data'' (Clients [7]) silent_page =
     Some \<lparr>status = 500, content_type = ''application/json'', body = ErrorBody ''timeout''\<rparr>"
    using bridge_failures [of silent_page 7 "[]"] silent by blast
  moreover have "fetch_handler ''/claim-data'' (Clients [7]) late_page =
     Some \<lparr>status = 500, content_type = ''application/json'', body = ErrorBody ''timeout''\<rparr>"
    using bridge_failures [of late_page 7 "[]"] late by blast
  moreover have "fetch_handler ''/claim-data'' (Clients [7]) odd_page =
     Some \<lparr>status = 500, content_type = ''application/json'', body = ErrorBody ''no-data''\<rparr>"
    using bridge_failures [of odd_page 7 "[]"] odd by blast
  moreover have "fetch_handler ''/claim-data'' (Clients ([] :: nat list)) odd_page =
     Some \<lparr>status = 500, content_type = ''application/json'', body = ErrorBody ''no-client''\<rparr>"
    using bridge_failures [of odd_page] by blast
  ultimately show ?thesis using silent by blast
qed

section \<open>The snapshot handed to the service worker\<close>

lemma descriptors_only_iff: "descriptors_only fs \<longleftrightarrow> (\<forall>f \<in> set fs. fd_data f = None)"
  by (simp add: descriptors_only_def list_all_iff)

text \<open>
  C2, as the code has it. The \<open>CLAIM_DATA_RESPONSE\<close> message that the page posts carries
  \<open>formData\<close>, the list \<open>uploadedFiles\<close> exactly as it is held in memory, and a timestamp.
  It is free of inline file data exactly when no descriptor in memory carries any.
\<close>

theorem bridge_snapshot_is_memory:
  "serviceWorker_onmessage s event = Some (channel, m) \<Longrightarrow>
   pm_type m = ''CLAIM_DATA_RESPONSE'' \<and>
   cd_formData (pm_data m) = formData s \<and>
   cd_uploadedFiles (pm_data m) = uploadedFiles s \<and>
   cd_timestamp (pm_data m) = clock s \<and>
   (descriptors_only (cd_uploadedFiles (pm_data m)) \<longleftrightarrow>
      (\<forall>f \<in> set (uploadedFiles s). fd_data f = None))"
  by (auto simp: serviceWorker_onmessage_def getClaimData_def descriptors_only_iff
           split: option.splits if_splits)

lemma uploaded_session_files: "uploadedFiles uploaded_session = [legacy_pdf]"
  by (simp add: uploaded_session_def pdf_upload_def fresh_page_def validateFile_def
        allowedTypes_def maxFileSize_def legacy_pdf_def saveToStorage_keeps showMessage_def Let_def)

lemma uploaded_session_answer:
  "serviceWorker_onmessage uploaded_session request_event =
     Some (0, \<lparr>pm_type = ''CLAIM_DATA_RESPONSE'', pm_data = getClaimData uploaded_session\<rparr>)"
  by (simp add: serviceWorker_onmessage_def request_event_def element_at_def)

theorem bridge_snapshot_is_memory_witness:
  "serviceWorker_onmessage uploaded_session request_event =
     Some (0, \<lparr>pm_type = ''CLAIM_DATA_RESPONSE'', pm_data = getClaimData uploaded_session\<rparr>) \<and>
   cd_uploadedFiles (getClaimData uploaded_session) = [legacy_pdf] \<and>
   cd_timestamp (getClaimData uploaded_session) = ''2024-01-01T00:00:00.000Z''"
proof -
  note run = bridge_snapshot_is_memory [OF uploaded_session_answer]
  have "clock uploaded_session = ''2024-01-01T00:00:00.000Z''"
    by (simp add: uploaded_session_def pdf_upload_def fresh_page_def validateFile_def
        allowedTypes_def maxFileSize_def saveToStorage_def showMessage_def Let_def)
  then show ?thesis
    using run uploaded_session_answer by (simp add: uploaded_session_files)
qed

text \<open>
  A file uploaded in the running session is held with its data URL, and the response
  carries it.
\<close>

theorem bridge_carries_inline_data_counterexample:
  "serviceWorker_onmessage uploaded_session request_event =
     Some (0, \<lparr>pm_type = ''CLAIM_DATA_RESPONSE'', pm_data = getClaimData uploaded_session\<rparr>) \<and>
   cd_uploadedFiles (getClaimData uploaded_session) = [legacy_pdf] \<and>
   fd_data legacy_pdf = Some ''data:application/pdf;base64,JVBERg=='' \<and>
   \<not> descriptors_only (cd_uploadedFiles (getClaimData uploaded_session))"
  by (simp add: uploaded_session_answer getClaimData_def uploaded_session_files
        descriptors_only_def legacy_pdf_def)

section \<open>The snapshot written to localStorage\<close>

text \<open>
  C3, as the code has it. When \<open>saveToStorage\<close> writes (the claim is not submitted and
  \<open>setItem\<close> does not raise), the snapshot holds \<open>formData\<close> as it is, the timestamp, and
  one entry per uploaded file with the file's \<open>id\<close>, \<open>name\<close>, \<open>size\<close> and \<open>type\<close> and
  without the inline \<open>data\<close>.
\<close>

theorem saved_snapshot_metadata_only:
  "\<not> isSubmitted s \<Longrightarrow> \<not> quota_exceeded s \<Longrightarrow>
   \<exists>files. localStorage (saveToStorage s) =
       Some (Document \<lparr>snap_formData = Some (formData s), snap_uploadedFiles = Some files,
                       snap_timestamp = Some (clock s)\<rparr>) \<and>
     length files = length (uploadedFiles s) \<and>
     descriptors_only files \<and>
     (\<forall>i < length files.
        fd_id (files ! i) = fd_id (uploadedFiles s ! i) \<and>
        fd_name (files ! i) = fd_name (uploadedFiles s ! i) \<and>
        fd_size (files ! i) = fd_size (uploadedFiles s ! i) \<and>
        fd_type (files ! i) = fd_type (uploadedFiles s ! i))"
  by (simp add: saveToStorage_def dataToSave_def descriptors_only_iff metadata_of_def)

theorem saved_snapshot_metadata_only_witness:
  "\<not> isSubmitted uploaded_session \<and> \<not> quota_exceeded uploaded_session \<and>
   localStorage (saveToStorage uploaded_session) =
     Some (Document \<lparr>snap_formData = Some [], snap_uploadedFiles = Some [metadata_of legacy_pdf],
                     snap_timestamp = Some ''2024-01-01T00:00:00.000Z''\<rparr>) \<and>
   fd_data (metadata_of legacy_pdf) = None"
proof -
  have facts: "\<not> isSubmitted uploaded_session" "\<not> quota_exceeded uploaded_session"
    "clock uploaded_session = ''2024-01-01T00:00:00.000Z''" "formData uploaded_session = []"
    by (simp_all add: uploaded_session_def pdf_upload_def fresh_page_def validateFile_def
        allowedTypes_def maxFileSize_def saveToStorage_def showMessage_def Let_def)
  from saved_snapshot_metadata_only [OF facts(1,2)]
  obtain files where
    ls: "localStorage (saveToStorage uploaded_session) =
       Some (Document \<lparr>snap_formData = Some (formData uploaded_session),
                       snap_uploadedFiles = Some files,
                       snap_timestamp = Some (clock uploaded_session)\<rparr>)"
    and only: "descriptors_only files"
    by blast
  have "localStorage (saveToStorage uploaded_session) =
     Some (Document \<lparr>snap_formData = Some [], snap_uploadedFiles = Some [metadata_of legacy_pdf],
                     snap_timestamp = Some ''2024-01-01T00:00:00.000Z''\<rparr>)"
    using facts by (simp add: saveToStorage_def dataToSave_def uploaded_session_files)
  with ls have "files = [metadata_of legacy_pdf]" by simp
  with only have "fd_data (metadata_of legacy_pdf) = None"
    by (simp add: descriptors_only_def)
  then show ?thesis
    using facts ls \<open>files = [metadata_of legacy_pdf]\<close> by simp
qed

text \<open>
  The form answers are written as they are, so the snapshot is not free of inline base64
  content: \<open>confirmSignature\<close> stores the signature image as a data URL in \<open>formData\<close> and
  saves.
\<close>

theorem signature_persisted_counterexample:
  "localStorage (confirmSignature (Some signature_url) fresh_page) = Some (Document signed_snapshot) \<and>
   snapshot_has_binary signed_snapshot"
  by (simp add: confirmSignature_def fresh_page_def saveToStorage_def dataToSave_def
        showMessage_def Let_def signed_snapshot_def snapshot_has_binary_def
        inline_base64_def signature_url_def descriptors_only_def)

section \<open>Saving and loading again\<close>

text \<open>
  C5, as the code has it. For a session that is not submitted, when \<open>setItem\<close> does not
  raise and no descriptor carries inline data, \<open>saveToStorage\<close> followed by
  \<open>loadFromStorage\<close> gives back the same \<open>formData\<close> and the same descriptor list, and
  it does so from the stored snapshot: whatever memory holds when the load starts (nothing,
  as on the next page, or other answers and files), it ends with what was saved.
\<close>

theorem save_load_roundtrip:
  "\<not> isSubmitted s \<Longrightarrow> \<not> quota_exceeded s \<Longrightarrow>
   \<forall>f \<in> set (uploadedFiles s). fd_data f = None \<Longrightarrow>
   formData (loadFromStorage env ((saveToStorage s)\<lparr>formData := fd', uploadedFiles := fs'\<rparr>)) =
     formData s \<and>
   uploadedFiles (loadFromStorage env ((saveToStorage s)\<lparr>formData := fd', uploadedFiles := fs'\<rparr>)) =
     uploadedFiles s \<and>
   formData (loadFromStorage env (saveToStorage s)) = formData s \<and>
   uploadedFiles (loadFromStorage env (saveToStorage s)) = uploadedFiles s"
proof -
  assume active: "\<not> isSubmitted s" and room: "\<not> quota_exceeded s"
    and refs: "\<forall>f \<in> set (uploadedFiles s). fd_data f = None"
  let ?saved = "s\<lparr>localStorage := Some (Document (dataToSave s))\<rparr>"
  have saved: "saveToStorage s = ?saved"
    using active room by (simp add: saveToStorage_def)
  have same: "map metadata_of (uploadedFiles s) = uploadedFiles s"
    using refs by (simp add: map_idI metadata_of_reference)
  have load: "loadFromStorage env (?saved\<lparr>formData := a, uploadedFiles := b\<rparr>) =
      ?saved\<lparr>formData := formData s, uploadedFiles := map metadata_of (uploadedFiles s)\<rparr>"
    for a b
    by (subst load_stripped [where fd = "formData s" and fs = "uploadedFiles s"
          and ts = "Some (clock s)"])
       (simp_all add: dataToSave_def)
  have "?saved = ?saved\<lparr>formData := formData ?saved, uploadedFiles := uploadedFiles ?saved\<rparr>"
    by simp
  then have direct: "loadFromStorage env ?saved =
      ?saved\<lparr>formData := formData s, uploadedFiles := map metadata_of (uploadedFiles s)\<rparr>"
    using load [where a = "formData ?saved" and b = "uploadedFiles ?saved"] by simp
  show ?thesis
    by (simp add: saved load direct same)
qed

lemma draft_input_facts:
  "\<not> isSubmitted draft_input" "\<not> quota_exceeded draft_input"
  "formData draft_input = [(''insured-name'', FStr ''Jane'')]"
  "uploadedFiles draft_input = [stored_pdf]"
  "fd_data stored_pdf = None"
  by (simp_all add: draft_input_def fresh_page_def stored_pdf_def)

theorem save_load_roundtrip_witness:
  "\<not> isSubmitted draft_input \<and> \<not> quota_exceeded draft_input \<and>
   uploadedFiles draft_input = [stored_pdf] \<and> fd_data stored_pdf = None \<and>
   formData (loadFromStorage env_down
      ((saveToStorage draft_input)\<lparr>formData := [], uploadedFiles := []\<rparr>)) =
     [(''insured-name'', FStr ''Jane'')] \<and>
   uploadedFiles (loadFromStorage env_down
      ((saveToStorage draft_input)\<lparr>formData := [], uploadedFiles := []\<rparr>)) = [stored_pdf] \<and>
   uploadedFiles (loadFromStorage env_down
      ((saveToStorage draft_input)\<lparr>formData := [(''phone'', FStr ''+15551234567'')],
                                   uploadedFiles := [stored_png]\<rparr>)) = [stored_pdf]"
proof -
  have refs: "\<forall>f \<in> set (uploadedFiles draft_input). fd_data f = None"
    by (simp add: draft_input_facts)
  note reload = save_load_roundtrip
    [where s = draft_input and env = env_down and fd' = "[]" and fs' = "[]",
     OF draft_input_facts(1,2) refs]
  note other = save_load_roundtrip
    [where s = draft_input and env = env_down and fd' = "[(''phone'', FStr ''+15551234567'')]"
       and fs' = "[stored_png]",
     OF draft_input_facts(1,2) refs]
  from reload other show ?thesis
    by (simp add: draft_input_facts)
qed

text \<open>
  Once the claim is submitted, or when the quota is used up, the save writes nothing and
  the load brings back the older snapshot instead of the session's answers.
\<close>

lemma draft_session_stored:
  "localStorage draft_session =
     Some (Document \<lparr>snap_formData = Some [(''insured-name'', FStr ''Jane'')],
                     snap_uploadedFiles = Some [stored_pdf],
                     snap_timestamp = Some ''2024-01-01T00:00:00.000Z''\<rparr>)"
  "uploadedFiles draft_session = [stored_pdf]"
  "idb_files draft_session = Map.empty"
  by (simp_all add: draft_session_def saveToStorage_def dataToSave_def draft_input_def
        fresh_page_def metadata_of_def stored_pdf_def)

lemma load_reference_files:
  "localStorage s = Some (Document \<lparr>snap_formData = Some fd, snap_uploadedFiles = Some [stored_pdf],
                                     snap_timestamp = ts\<rparr>) \<Longrightarrow>
   loadFromStorage env s = s\<lparr>formData := fd, uploadedFiles := [stored_pdf]\<rparr>"
  by (simp add: loadFromStorage_def migrateLegacy_noop entry_ok_def has_data_def stored_pdf_def)

theorem stale_snapshot_counterexample:
  "formData edited_after_submit = [(''insured-name'', FStr ''Jane Doe'')] \<and>
   descriptors_only (uploadedFiles edited_after_submit) \<and>
   formData (loadFromStorage env_ok (saveToStorage edited_after_submit)) =
     [(''insured-name'', FStr ''Jane'')] \<and>
   formData (loadFromStorage env_ok (saveToStorage edited_after_submit)) \<noteq>
     formData edited_after_submit \<and>
   formData edited_over_quota = [(''insured-name'', FStr ''Jane Doe'')] \<and>
   descriptors_only (uploadedFiles edited_over_quota) \<and>
   formData (loadFromStorage env_ok (saveToStorage edited_over_quota)) =
     [(''insured-name'', FStr ''Jane'')]"
proof -
  have a: "saveToStorage edited_after_submit = edited_after_submit"
    by (simp add: saveToStorage_def edited_after_submit_def)
  have b: "localStorage (saveToStorage edited_over_quota) = localStorage draft_session"
    by (simp add: saveToStorage_def edited_over_quota_def showMessage_def)
  have "formData (loadFromStorage env_ok (saveToStorage edited_after_submit)) =
     [(''insured-name'', FStr ''Jane'')]"
    unfolding a
    by (subst load_reference_files) (simp_all add: edited_after_submit_def draft_session_stored)
  moreover have "formData (loadFromStorage env_ok (saveToStorage edited_over_quota)) =
     [(''insured-name'', FStr ''Jane'')]"
    by (subst load_reference_files) (simp_all add: b draft_session_stored)
  moreover have "descriptors_only (uploadedFiles edited_after_submit)"
    "descriptors_only (uploadedFiles edited_over_quota)"
    by (simp_all add: edited_after_submit_def edited_over_quota_def draft_session_stored
          descriptors_only_def stored_pdf_def)
  moreover have "formData edited_after_submit = [(''insured-name'', FStr ''Jane Doe'')]"
    "formData edited_over_quota = [(''insured-name'', FStr ''Jane Doe'')]"
    by (simp_all add: edited_after_submit_def edited_over_quota_def)
  ultimately show ?thesis by simp
qed

section \<open>Rejected uploads\<close>

lemma processFiles_rejects:
  "rf_type file \<notin> set allowedTypes \<or> maxFileSize < rf_size file \<Longrightarrow>
   processFiles (file # files) s =
     processFiles files (showMessage (rejection_note file) ''error'' s)"
  by (auto simp: validateFile_def rejection_note_def)

lemma processFiles_append:
  "processFiles (xs @ ys) s = processFiles ys (processFiles xs s)"
  by (induction xs arbitrary: s) (auto simp: Let_def split: prod.splits bool.splits option.splits)

lemma saveToStorage_notes:
  "\<exists>new. \<forall>ms. saveToStorage (s\<lparr>messages := ms\<rparr>) =
      (saveToStorage (s\<lparr>messages := []\<rparr>))\<lparr>messages := ms @ new\<rparr>"
proof (cases "isSubmitted s")
  case True
  then have "\<forall>ms. saveToStorage (s\<lparr>messages := ms\<rparr>) =
      (saveToStorage (s\<lparr>messages := []\<rparr>))\<lparr>messages := ms @ []\<rparr>"
    by (simp add: saveToStorage_def)
  then show ?thesis by blast
next
  case False
  show ?thesis
  proof (cases "quota_exceeded s")
    case True
    with False have "\<forall>ms. saveToStorage (s\<lparr>messages := ms\<rparr>) =
      (saveToStorage (s\<lparr>messages := []\<rparr>))\<lparr>messages := ms @
         [(''Failed to save metadata, please check storage space'', ''error'')]\<rparr>"
      by (simp add: saveToStorage_def showMessage_def)
    then show ?thesis by blast
  next
    case F: False
    with False have "\<forall>ms. saveToStorage (s\<lparr>messages := ms\<rparr>) =
      (saveToStorage (s\<lparr>messages := []\<rparr>))\<lparr>messages := ms @ []\<rparr>"
      by (simp add: saveToStorage_def dataToSave_def)
    then show ?thesis by blast
  qed
qed

text \<open>
  \<open>processFiles\<close> never reads the notifications: started with any list of them, it
  ends in the same state with the same new notifications appended. In the induction step
  the first file leaves a state \<open>u\<close> and appends \<open>q\<close>, whatever was shown before.
\<close>

lemma processFiles_notes:
  "\<exists>new. \<forall>ms. processFiles fs (s\<lparr>messages := ms\<rparr>) =
      (processFiles fs (s\<lparr>messages := []\<rparr>))\<lparr>messages := ms @ new\<rparr>"
proof (induction fs arbitrary: s)
  case Nil
  have "\<forall>ms. processFiles [] (s\<lparr>messages := ms\<rparr>) =
      (processFiles [] (s\<lparr>messages := []\<rparr>))\<lparr>messages := ms @ []\<rparr>"
    by simp
  then show ?case by blast
next
  case (Cons x xs)
  have first: "\<exists>u q. \<forall>ms. processFiles (x # xs) (s\<lparr>messages := ms\<rparr>) =
      processFiles xs (u\<lparr>messages := ms @ q\<rparr>)"
  proof (cases "rf_type x \<notin> set allowedTypes \<or> maxFileSize < rf_size x")
    case True
    have "\<forall>ms. processFiles (x # xs) (s\<lparr>messages := ms\<rparr>) =
        processFiles xs (s\<lparr>messages := ms @ [(rejection_note x, ''error'')]\<rparr>)"
      by (simp only: processFiles_rejects [OF True]) (simp add: showMessage_def)
    then show ?thesis by blast
  next
    case False
    then have valid: "\<And>t. validateFile x t = (True, t)"
      by (auto simp: validateFile_def)
    show ?thesis
    proof (cases "rf_read x")
      case None
      have "\<forall>ms. processFiles (x # xs) (s\<lparr>messages := ms\<rparr>) =
          processFiles xs
            (s\<lparr>messages := ms @ [(''File '' @ rf_name x @ '' processing failed'', ''error'')]\<rparr>)"
        using None by (simp add: valid showMessage_def)
      then show ?thesis by blast
    next
      case (Some fileData)
      let ?info = "\<lparr>fd_id = None, fd_name = rf_name x, fd_size = rf_size x,
                    fd_type = rf_type x, fd_data = Some fileData\<rparr>"
      let ?t = "s\<lparr>uploadedFiles := uploadedFiles s @ [?info]\<rparr>"
      let ?done = "(''File '' @ rf_name x @ '' uploaded successfully'', ''success'')"
      from saveToStorage_notes [of ?t] obtain q where
        q: "\<And>ms. saveToStorage (?t\<lparr>messages := ms\<rparr>) =
          (saveToStorage (?t\<lparr>messages := []\<rparr>))\<lparr>messages := ms @ q\<rparr>"
        by blast
      let ?u = "saveToStorage (?t\<lparr>messages := []\<rparr>)"
      have "processFiles (x # xs) (s\<lparr>messages := ms\<rparr>) =
          processFiles xs (?u\<lparr>messages := ms @ (q @ [?done])\<rparr>)" for ms
      proof -
        have "processFiles (x # xs) (s\<lparr>messages := ms\<rparr>) =
            processFiles xs (showMessage (fst ?done) (snd ?done)
              (saveToStorage (?t\<lparr>messages := ms\<rparr>)))"
        proof -
          have swap: "s\<lparr>messages := ms, uploadedFiles := uploadedFiles s @ [?info]\<rparr> =
                ?t\<lparr>messages := ms\<rparr>"
            by (cases s) simp
          have raw: "processFiles (x # xs) (s\<lparr>messages := ms\<rparr>) =
            processFiles xs (showMessage (fst ?done) (snd ?done)
              (saveToStorage (s\<lparr>messages := ms, uploadedFiles := uploadedFiles s @ [?info]\<rparr>)))"
            using Some by (simp add: valid Let_def)
          show ?thesis
            by (simp only: raw swap)
        qed
        also have "\<dots> = processFiles xs (?u\<lparr>messages := ms @ (q @ [?done])\<rparr>)"
          by (simp only: q [of ms]) (simp add: showMessage_def)
        finally show ?thesis .
      qed
      then show ?thesis by blast
    qed
  qed
  then obtain u q where
    first: "\<And>ms. processFiles (x # xs) (s\<lparr>messages := ms\<rparr>) =
      processFiles xs (u\<lparr>messages := ms @ q\<rparr>)"
    by blast
  from Cons.IH [of u] obtain new where
    new: "\<And>ms. processFiles xs (u\<lparr>messages := ms\<rparr>) =
      (processFiles xs (u\<lparr>messages := []\<rparr>))\<lparr>messages := ms @ new\<rparr>"
    by blast
  have "processFiles (x # xs) (s\<lparr>messages := ms\<rparr>) =
      (processFiles (x # xs) (s\<lparr>messages := []\<rparr>))\<lparr>messages := ms @ (q @ new)\<rparr>" for ms
  proof -
    have "processFiles (x # xs) (s\<lparr>messages := ms\<rparr>) =
        (processFiles xs (u\<lparr>messages := []\<rparr>))\<lparr>messages := (ms @ q) @ new\<rparr>"
      by (simp only: first [of ms] new [of "ms @ q"])
    moreover have "processFiles (x # xs) (s\<lparr>messages := []\<rparr>) =
        (processFiles xs (u\<lparr>messages := []\<rparr>))\<lparr>messages := ([] @ q) @ new\<rparr>"
      by (simp only: first [of "[]"] new [of "[] @ q"])
    ultimately show ?thesis by simp
  qed
  then show ?case by blast
qed

lemma processFiles_after_note:
  "unnoticed (processFiles fs (showMessage note kind s)) = unnoticed (processFiles fs s) \<and>
   messages (processFiles fs (showMessage note kind s)) =
     messages s @ [(note, kind)] @ drop (length (messages s)) (messages (processFiles fs s))"
proof -
  from processFiles_notes [of fs s] obtain new where
    new: "\<And>ms. processFiles fs (s\<lparr>messages := ms\<rparr>) =
      (processFiles fs (s\<lparr>messages := []\<rparr>))\<lparr>messages := ms @ new\<rparr>"
    by blast
  let ?p = "processFiles fs (s\<lparr>messages := []\<rparr>)"
  have a: "processFiles fs s = ?p\<lparr>messages := messages s @ new\<rparr>"
    using new [of "messages s"] by simp
  have b: "processFiles fs (showMessage note kind s) =
      ?p\<lparr>messages := (messages s @ [(note, kind)]) @ new\<rparr>"
    using new [of "messages s @ [(note, kind)]"] by (simp add: showMessage_def)
  show ?thesis
    by (simp only: a b) (simp add: unnoticed_def)
qed

text \<open>
  C8. A file whose type is none of \<open>image/jpeg\<close>, \<open>image/png\<close>, \<open>image/gif\<close>,
  \<open>application/pdf\<close>, or whose size is above 10 MB, is rejected: processed alone it
  changes nothing but the notifications, to which it adds exactly one error; inside a
  batch, the state after the batch is the state after the batch without that file, apart
  from the notifications, and the notifications are those of the batch without it with
  the one rejection inserted where the file's turn came.
\<close>

theorem rejected_file_isolated:
  "rf_type file \<notin> {''image/jpeg'', ''image/png'', ''image/gif'', ''application/pdf''} \<or>
     10 * 1024 * 1024 < rf_size file \<Longrightarrow>
   processFiles [file] s = s\<lparr>messages := messages s @ [(rejection_note file, ''error'')]\<rparr> \<and>
   unnoticed (processFiles (before @ file # after) s) =
     unnoticed (processFiles (before @ after) s) \<and>
   messages (processFiles (before @ file # after) s) =
     messages (processFiles before s) @ [(rejection_note file, ''error'')] @
     drop (length (messages (processFiles before s))) (messages (processFiles (before @ after) s))"
proof -
  assume "rf_type file \<notin> {''image/jpeg'', ''image/png'', ''image/gif'', ''application/pdf''} \<or>
     10 * 1024 * 1024 < rf_size file"
  then have bad: "rf_type file \<notin> set allowedTypes \<or> maxFileSize < rf_size file"
    by (simp add: allowedTypes_def maxFileSize_def)
  have one: "processFiles [file] s = s\<lparr>messages := messages s @ [(rejection_note file, ''error'')]\<rparr>"
    by (simp only: processFiles_rejects [OF bad]) (simp add: showMessage_def)
  have batch: "processFiles (before @ file # after) s =
      processFiles after (showMessage (rejection_note file) ''error'' (processFiles before s))"
    by (simp only: processFiles_append processFiles_rejects [OF bad])
  have without: "processFiles (before @ after) s = processFiles after (processFiles before s)"
    by (rule processFiles_append)
  from processFiles_after_note [of after "rejection_note file" "''error''" "processFiles before s"]
  show ?thesis
    unfolding one batch without by simp
qed

theorem rejected_file_isolated_witness:
  "rf_type text_upload \<notin> {''image/jpeg'', ''image/png'', ''image/gif'', ''application/pdf''} \<and>
   processFiles [text_upload] fresh_page =
     fresh_page\<lparr>messages := [(''Unsupported file type: notes.txt'', ''error'')]\<rparr> \<and>
   uploadedFiles (processFiles [pdf_upload, text_upload] fresh_page) = [legacy_pdf] \<and>
   messages (processFiles [pdf_upload, text_upload] fresh_page) =
     [(''File report.pdf uploaded successfully'', ''success''),
      (''Unsupported file type: notes.txt'', ''error'')]"
proof -
  have bad: "rf_type text_upload \<notin> {''image/jpeg'', ''image/png'', ''image/gif'', ''application/pdf''}"
    by (simp add: text_upload_def)
  then have hyp: "rf_type text_upload \<notin> {''image/jpeg'', ''image/png'', ''image/gif'', ''application/pdf''} \<or>
     10 * 1024 * 1024 < rf_size text_upload"
    by simp
  have msg: "rejection_note text_upload = ''Unsupported file type: notes.txt''"
    by (simp add: rejection_note_def text_upload_def allowedTypes_def)
  have alone: "processFiles [text_upload] fresh_page =
     fresh_page\<lparr>messages := [(''Unsupported file type: notes.txt'', ''error'')]\<rparr>"
    using rejected_file_isolated [of text_upload fresh_page "[]" "[]", OF hyp]
    by (simp add: msg) (simp add: fresh_page_def)
  note batch = rejected_file_isolated [of text_upload fresh_page "[pdf_upload]" "[]", OF hyp]
  have shown: "messages uploaded_session = [(''File report.pdf uploaded successfully'', ''success'')]"
    by (simp add: uploaded_session_def pdf_upload_def fresh_page_def validateFile_def
        allowedTypes_def maxFileSize_def saveToStorage_def showMessage_def Let_def)
  from batch have "unnoticed (processFiles [pdf_upload, text_upload] fresh_page) =
      unnoticed uploaded_session"
    by (simp add: uploaded_session_def)
  then have "uploadedFiles (unnoticed (processFiles [pdf_upload, text_upload] fresh_page)) =
      uploadedFiles (unnoticed uploaded_session)"
    by simp
  then have files: "uploadedFiles (processFiles [pdf_upload, text_upload] fresh_page) = [legacy_pdf]"
    by (simp add: unnoticed_def uploaded_session_files)
  from batch have "messages (processFiles [pdf_upload, text_upload] fresh_page) =
     messages uploaded_session @ [(rejection_note text_upload, ''error'')] @
     drop (length (messages uploaded_session)) (messages uploaded_session)"
    by (simp add: uploaded_session_def)
  then have "messages (processFiles [pdf_upload, text_upload] fresh_page) =
     [(''File report.pdf uploaded successfully'', ''success''),
      (''Unsupported file type: notes.txt'', ''error'')]"
    by (simp add: shown msg)
  with bad alone files show ?thesis by simp
qed

section \<open>Exporting the uploaded files\<close>

lemma export_file_eq:
  "export_file i f s =
     (case export_download i f of
        None \<Rightarrow> showMessage (''Failed to export file: '' @ fd_name f) ''error'' s
      | Some d \<Rightarrow> s\<lparr>downloads := downloads s @ [d]\<rparr>)"
  by (simp add: export_file_def export_download_def Let_def split: option.splits)

lemma export_download_index: "export_download i f = Some d \<Longrightarrow> dl_index d = i \<and> fd_data f \<noteq> None"
  by (auto simp: export_download_def split: option.splits)

lemma export_download_reference: "fd_data f = None \<Longrightarrow> export_download i f = None"
  by (simp add: export_download_def)

lemma export_each_trace:
  "\<exists>new ns.
     downloads (export_each i fs s) = downloads s @ new \<and>
     messages (export_each i fs s) = messages s @ ns \<and>
     (\<forall>d \<in> set new. i \<le> dl_index d \<and> dl_index d < i + length fs \<and>
        export_download (dl_index d) (fs ! (dl_index d - i)) = Some d) \<and>
     (\<forall>j < length fs.
        (case export_download (i + j) (fs ! j) of
           None \<Rightarrow> (''Failed to export file: '' @ fd_name (fs ! j), ''error'') \<in> set ns
         | Some d \<Rightarrow> d \<in> set new))"
proof (induction fs arbitrary: i s)
  case Nil
  show ?case by simp
next
  case (Cons f fs)
  let ?s1 = "export_file i f s"
  from Cons.IH [of "i + 1" ?s1] obtain new ns where
    dl: "downloads (export_each (i + 1) fs ?s1) = downloads ?s1 @ new" and
    ms: "messages (export_each (i + 1) fs ?s1) = messages ?s1 @ ns" and
    lower: "\<forall>d \<in> set new. i + 1 \<le> dl_index d \<and> dl_index d < i + 1 + length fs \<and>
        export_download (dl_index d) (fs ! (dl_index d - (i + 1))) = Some d" and
    each: "\<forall>j < length fs.
        (case export_download (i + 1 + j) (fs ! j) of
           None \<Rightarrow> (''Failed to export file: '' @ fd_name (fs ! j), ''error'') \<in> set ns
         | Some d \<Rightarrow> d \<in> set new)"
    by blast
  show ?case
  proof (cases "export_download i f")
    case None
    let ?note = "(''Failed to export file: '' @ fd_name f, ''error'')"
    have s1: "downloads ?s1 = downloads s" "messages ?s1 = messages s @ [?note]"
      using None by (simp_all add: export_file_eq showMessage_def)
    have a: "downloads (export_each i (f # fs) s) = downloads s @ new"
      using dl s1 by simp
    have b: "messages (export_each i (f # fs) s) = messages s @ (?note # ns)"
      using ms s1 by simp
    have c: "\<forall>d \<in> set new. i \<le> dl_index d \<and> dl_index d < i + length (f # fs) \<and>
        export_download (dl_index d) ((f # fs) ! (dl_index d - i)) = Some d"
    proof
      fix d assume "d \<in> set new"
      with lower have d: "i + 1 \<le> dl_index d" "dl_index d < i + 1 + length fs"
        "export_download (dl_index d) (fs ! (dl_index d - (i + 1))) = Some d"
        by auto
      from d(1) have "(f # fs) ! (dl_index d - i) = fs ! (dl_index d - (i + 1))"
        by (simp add: nth_Cons')
      with d show "i \<le> dl_index d \<and> dl_index d < i + length (f # fs) \<and>
        export_download (dl_index d) ((f # fs) ! (dl_index d - i)) = Some d"
        by simp
    qed
    have e: "\<forall>j < length (f # fs).
        (case export_download (i + j) ((f # fs) ! j) of
           None \<Rightarrow> (''Failed to export file: '' @ fd_name ((f # fs) ! j), ''error'') \<in> set (?note # ns)
         | Some d \<Rightarrow> d \<in> set new)"
    proof (intro allI impI)
      fix j assume j: "j < length (f # fs)"
      show "case export_download (i + j) ((f # fs) ! j) of
           None \<Rightarrow> (''Failed to export file: '' @ fd_name ((f # fs) ! j), ''error'') \<in> set (?note # ns)
         | Some d \<Rightarrow> d \<in> set new"
      proof (cases j)
        case 0
        then show ?thesis using None by simp
      next
        case (Suc k)
        with j each have "case export_download (i + 1 + k) (fs ! k) of
           None \<Rightarrow> (''Failed to export file: '' @ fd_name (fs ! k), ''error'') \<in> set ns
         | Some d \<Rightarrow> d \<in> set new"
          by simp
        then show ?thesis using Suc by (simp split: option.splits)
      qed
    qed
    from a b c e show ?thesis by blast
  next
    case (Some d0)
    have s1: "downloads ?s1 = downloads s @ [d0]" "messages ?s1 = messages s"
      using Some by (simp_all add: export_file_eq)
    have a: "downloads (export_each i (f # fs) s) = downloads s @ (d0 # new)"
      using dl s1 by simp
    have b: "messages (export_each i (f # fs) s) = messages s @ ns"
      using ms s1 by simp
    have d0: "dl_index d0 = i"
      using Some by (simp add: export_download_index)
    have c: "\<forall>d \<in> set (d0 # new). i \<le> dl_index d \<and> dl_index d < i + length (f # fs) \<and>
        export_download (dl_index d) ((f # fs) ! (dl_index d - i)) = Some d"
    proof
      fix d assume "d \<in> set (d0 # new)"
      then consider "d = d0" | "d \<in> set new" by auto
      then show "i \<le> dl_index d \<and> dl_index d < i + length (f # fs) \<and>
        export_download (dl_index d) ((f # fs) ! (dl_index d - i)) = Some d"
      proof cases
        case 1
        then show ?thesis using d0 Some by simp
      next
        case 2
        with lower have d: "i + 1 \<le> dl_index d" "dl_index d < i + 1 + length fs"
          "export_download (dl_index d) (fs ! (dl_index d - (i + 1))) = Some d"
          by auto
        from d(1) have "(f # fs) ! (dl_index d - i) = fs ! (dl_index d - (i + 1))"
          by (simp add: nth_Cons')
        with d show ?thesis by simp
      qed
    qed
    have e: "\<forall>j < length (f # fs).
        (case export_download (i + j) ((f # fs) ! j) of
           None \<Rightarrow> (''Failed to export file: '' @ fd_name ((f # fs) ! j), ''error'') \<in> set ns
         | Some d \<Rightarrow> d \<in> set (d0 # new))"
    proof (intro allI impI)
      fix j assume j: "j < length (f # fs)"
      show "case export_download (i + j) ((f # fs) ! j) of
           None \<Rightarrow> (''Failed to export file: '' @ fd_name ((f # fs) ! j), ''error'') \<in> set ns
         | Some d \<Rightarrow> d \<in> set (d0 # new)"
      proof (cases j)
        case 0
        then show ?thesis using Some by simp
      next
        case (Suc k)
        with j each have "case export_download (i + 1 + k) (fs ! k) of
           None \<Rightarrow> (''Failed to export file: '' @ fd_name (fs ! k), ''error'') \<in> set ns
         | Some d \<Rightarrow> d \<in> set new"
          by simp
        then show ?thesis using Suc by (simp split: option.splits)
      qed
    qed
    from a b c e show ?thesis by blast
  qed
qed

text \<open>
  C10. \<open>exportUploadedFiles\<close> only appends to the downloads and to the notifications.
  Every download it triggers belongs to a descriptor that carries inline data. For a
  descriptor without inline data no download is triggered and the error notification
  naming the file is shown. Every descriptor whose own data decodes gets its download,
  whatever happens to the other files.
\<close>

theorem export_needs_inline_data:
  "\<exists>new ns.
     downloads (exportUploadedFiles s) = downloads s @ new \<and>
     messages (exportUploadedFiles s) = messages s @ ns \<and>
     (\<forall>d \<in> set new. dl_index d < length (uploadedFiles s) \<and>
        fd_data (uploadedFiles s ! dl_index d) \<noteq> None) \<and>
     (\<forall>i < length (uploadedFiles s).
        fd_data (uploadedFiles s ! i) = None \<longrightarrow>
          (\<forall>d \<in> set new. dl_index d \<noteq> i) \<and>
          (''Failed to export file: '' @ fd_name (uploadedFiles s ! i), ''error'') \<in> set ns) \<and>
     (\<forall>i < length (uploadedFiles s). \<forall>d.
        export_download i (uploadedFiles s ! i) = Some d \<longrightarrow> d \<in> set new)"
proof -
  let ?fs = "uploadedFiles s"
  have run: "exportUploadedFiles s = export_each 0 ?fs s"
    by (cases ?fs) (simp_all add: exportUploadedFiles_def)
  from export_each_trace [of 0 ?fs s] obtain new ns where
    dl: "downloads (export_each 0 ?fs s) = downloads s @ new" and
    ms: "messages (export_each 0 ?fs s) = messages s @ ns" and
    origin: "\<forall>d \<in> set new. dl_index d < length ?fs \<and>
        export_download (dl_index d) (?fs ! dl_index d) = Some d" and
    each: "\<forall>j < length ?fs.
        (case export_download j (?fs ! j) of
           None \<Rightarrow> (''Failed to export file: '' @ fd_name (?fs ! j), ''error'') \<in> set ns
         | Some d \<Rightarrow> d \<in> set new)"
    by auto
  have a: "\<forall>d \<in> set new. dl_index d < length ?fs \<and> fd_data (?fs ! dl_index d) \<noteq> None"
    using origin export_download_index by blast
  have b: "\<forall>i < length ?fs. fd_data (?fs ! i) = None \<longrightarrow>
          (\<forall>d \<in> set new. dl_index d \<noteq> i) \<and>
          (''Failed to export file: '' @ fd_name (?fs ! i), ''error'') \<in> set ns"
  proof (intro allI impI)
    fix i assume i: "i < length ?fs" and ref: "fd_data (?fs ! i) = None"
    have none: "export_download i (?fs ! i) = None"
      using ref by (rule export_download_reference)
    have "\<forall>d \<in> set new. dl_index d \<noteq> i"
      using origin none by auto
    moreover have "(''Failed to export file: '' @ fd_name (?fs ! i), ''error'') \<in> set ns"
      using each i none by fastforce
    ultimately show "(\<forall>d \<in> set new. dl_index d \<noteq> i) \<and>
          (''Failed to export file: '' @ fd_name (?fs ! i), ''error'') \<in> set ns"
      by simp
  qed
  have c: "\<forall>i < length ?fs. \<forall>d. export_download i (?fs ! i) = Some d \<longrightarrow> d \<in> set new"
    using each by fastforce
  from dl ms a b c show ?thesis
    unfolding run by blast
qed

lemma mixed_session_files: "uploadedFiles mixed_session = [stored_png, legacy_pdf]"
  by (simp add: mixed_session_def)

lemma mixed_session_export:
  "export_download i stored_png = None"
  "export_download i legacy_pdf =
     Some \<lparr>dl_index = i, dl_name = ''report.pdf'',
           dl_blob = \<lparr>blob_bytes = [37, 80, 68, 70], blob_type = ''application/pdf''\<rparr>\<rparr>"
  by (simp_all add: export_download_def stored_png_def legacy_pdf_def element_at_def atob_samples
        blob_samples)

theorem export_needs_inline_data_witness:
  "fd_data (uploadedFiles mixed_session ! 0) = None \<and>
   (''Failed to export file: scan.png'', ''error'') \<in> set (messages (exportUploadedFiles mixed_session)) \<and>
   \<lparr>dl_index = 1, dl_name = ''report.pdf'',
     dl_blob = \<lparr>blob_bytes = [37, 80, 68, 70], blob_type = ''application/pdf''\<rparr>\<rparr>
     \<in> set (downloads (exportUploadedFiles mixed_session)) \<and>
   length (downloads (exportUploadedFiles mixed_session)) = 1"
proof -
  from export_needs_inline_data [of mixed_session] obtain new ns where
    dl: "downloads (exportUploadedFiles mixed_session) = downloads mixed_session @ new" and
    ms: "messages (exportUploadedFiles mixed_session) = messages mixed_session @ ns" and
    refs: "\<forall>i < length (uploadedFiles mixed_session).
        fd_data (uploadedFiles mixed_session ! i) = None \<longrightarrow>
          (\<forall>d \<in> set new. dl_index d \<noteq> i) \<and>
          (''Failed to export file: '' @ fd_name (uploadedFiles mixed_session ! i), ''error'') \<in> set ns" and
    rest: "\<forall>i < length (uploadedFiles mixed_session). \<forall>d.
        export_download i (uploadedFiles mixed_session ! i) = Some d \<longrightarrow> d \<in> set new"
    by blast
  have ref: "fd_data (uploadedFiles mixed_session ! 0) = None"
    by (simp add: mixed_session_files stored_png_def)
  from refs [rule_format, of 0] ref
  have "(''Failed to export file: '' @ fd_name (uploadedFiles mixed_session ! 0), ''error'') \<in> set ns"
    by (simp add: mixed_session_files)
  then have failed: "(''Failed to export file: scan.png'', ''error'') \<in> set (messages (exportUploadedFiles mixed_session))"
    by (simp add: ms mixed_session_files stored_png_def)
  from rest [rule_format, of 1] mixed_session_export(2)
  have "\<lparr>dl_index = 1, dl_name = ''report.pdf'',
     dl_blob = \<lparr>blob_bytes = [37, 80, 68, 70], blob_type = ''application/pdf''\<rparr>\<rparr> \<in> set new"
    by (simp add: mixed_session_files)
  then have got: "\<lparr>dl_index = 1, dl_name = ''report.pdf'',
     dl_blob = \<lparr>blob_bytes = [37, 80, 68, 70], blob_type = ''application/pdf''\<rparr>\<rparr>
     \<in> set (downloads (exportUploadedFiles mixed_session))"
    by (simp add: dl)
  have "length (downloads (exportUploadedFiles mixed_session)) = 1"
    by (simp add: exportUploadedFiles_def mixed_session_files export_file_eq mixed_session_export
          showMessage_def)
       (simp add: mixed_session_def fresh_page_def)
  with ref failed got show ?thesis by simp
qed

end
